theory Spec2Isabelle
  imports Complex_Main "HOL-Library.Sublist"
begin

section \<open>Python values used by the notebook\<close>

text \<open>
  The notebook \<^verbatim>\<open>ApacheSparkwithPyspark.ipynb\<close> is a linear pipeline of cells over
  Spark RDDs. An RDD is modelled by the list of its elements in RDD order, a Python
  \<^verbatim>\<open>str\<close> by a \<^typ>\<open>string\<close> (characters with code points below 256), and every
  Python exception by a value of \<open>error\<close> returned on the left of a sum.
\<close>

datatype error =
    ValueError
  | IndexError
  | RuntimeError string
  | ZeroDivisionError
  | OverflowError
  | SparkException

text \<open>
  \<^verbatim>\<open>str.split(sep)\<close> with an explicit one-character separator: every occurrence of
  the separator ends a field, so a string with \<open>n\<close> separators yields \<open>n + 1\<close> fields
  and the empty string yields one empty field.
\<close>

fun py_split :: "char \<Rightarrow> string \<Rightarrow> string list" where
  "py_split sep [] = [[]]"
| "py_split sep (c # cs) =
     (if c = sep then [] # py_split sep cs
      else (case py_split sep cs of
              [] \<Rightarrow> [[c]]
            | w # ws \<Rightarrow> (c # w) # ws))"

text \<open>
  \<^verbatim>\<open>str.strip(chars)\<close>: removes from both ends every character that occurs in
  \<open>chars\<close>.
\<close>

definition py_strip :: "string \<Rightarrow> string \<Rightarrow> string" where
  "py_strip chars s =
     rev (dropWhile (\<lambda>c. c \<in> set chars) (rev (dropWhile (\<lambda>c. c \<in> set chars) s)))"

text \<open>
  \<^verbatim>\<open>int(s)\<close> applied to a string of length one, which is the only way the notebook
  calls it (\<^verbatim>\<open>int(klass[0])\<close>): a decimal digit has its value, any other character
  raises \<^verbatim>\<open>ValueError\<close>. Below code point 256 the decimal digits are \<open>0\<close> to \<open>9\<close>.
\<close>

definition is_digit :: "char \<Rightarrow> bool" where
  "is_digit c = (48 \<le> (of_char c :: nat) \<and> (of_char c :: nat) \<le> 57)"

definition py_int_char :: "char \<Rightarrow> error + int" where
  "py_int_char c = (if is_digit c then Inr (int (of_char c) - 48) else Inl ValueError)"

section \<open>Create labeled points\<close>

text \<open>
  \<^verbatim>\<open>LabeledPoint(label, features)\<close> of \<^verbatim>\<open>pyspark.mllib.regression\<close>. The constructor
  converts the label and the features to floats; the notebook only ever stores small
  integers in them, which floats hold exactly, so both components are real numbers here.
\<close>

record LabeledPoint =
  label :: real
  features :: "real list"

definition quote :: char where
  "quote = CHR 0x22"

definition comma :: char where
  "comma = CHR '',''"

text \<open>
  The list comprehension of the first line of \<^verbatim>\<open>row_to_labeled_point\<close>:
  \<^verbatim>\<open>[segs.strip('"') for segs in line.split(',')]\<close>.
\<close>

definition segments :: "string \<Rightarrow> string list" where
  "segments line = map (py_strip [quote]) (py_split comma line)"

text \<open>
  \<^verbatim>\<open>
  def row_to_labeled_point(line):
      passenger_id, klass, age, sex, survived = [segs.strip('"') for segs in line.split(',')]
      klass = int(klass[0]) - 1
      if (age not in ['adults', 'child'] or
          sex not in ['man', 'women'] or
          survived not in ['yes', 'no']):
          raise RuntimeError('unknown value')
      features = [
          klass,
          (1 if age == 'adults' else 0),
          (1 if sex == 'women' else 0)
      ]
      return LabeledPoint(1 if survived == 'yes' else 0, features)
  \<close>
  Unpacking anything but five segments raises \<^verbatim>\<open>ValueError\<close>, \<^verbatim>\<open>klass[0]\<close> on an
  empty segment raises \<^verbatim>\<open>IndexError\<close>, and \<^verbatim>\<open>int\<close> raises \<^verbatim>\<open>ValueError\<close>; all of
  them happen before the membership tests.
\<close>

definition row_to_labeled_point :: "string \<Rightarrow> error + LabeledPoint" where
  "row_to_labeled_point line =
     (case segments line of
        [passenger_id, klass, age, sex, survived] \<Rightarrow>
          (case klass of
             [] \<Rightarrow> Inl IndexError
           | k0 # _ \<Rightarrow>
               (case py_int_char k0 of
                  Inl e \<Rightarrow> Inl e
                | Inr n \<Rightarrow>
                    (let klass' = real_of_int (n - 1) in
                     if age \<notin> set [''adults'', ''child''] \<or>
                        sex \<notin> set [''man'', ''women''] \<or>
                        survived \<notin> set [''yes'', ''no'']
                     then Inl (RuntimeError ''unknown value'')
                     else Inr \<lparr>label = (if survived = ''yes'' then 1 else 0),
                               features = [klass',
                                           (if age = ''adults'' then 1 else 0),
                                           (if sex = ''women'' then 1 else 0)]\<rparr>)))
      | _ \<Rightarrow> Inl ValueError)"

text \<open>
  The data rows of the file, as \<^verbatim>\<open>raw_rdd.take(5)\<close> shows them: five fields, each between
  double quotes, separated by commas, for instance
  \<^verbatim>\<open>"1","1st class","adults","man","yes"\<close>. \<open>csv_line\<close> writes such a row from its five
  fields. A field is \<open>plain\<close> when it is not empty, holds no comma and neither starts nor
  ends with a double quote, so that splitting and stripping give it back unchanged.
\<close>

definition quoted :: "string \<Rightarrow> string" where
  "quoted s = quote # s @ [quote]"

definition csv_line :: "string \<Rightarrow> string \<Rightarrow> string \<Rightarrow> string \<Rightarrow> string \<Rightarrow> string" where
  "csv_line passenger_id klass age sex survived =
     quoted passenger_id @ comma # quoted klass @ comma # quoted age @ comma #
     quoted sex @ comma # quoted survived"

definition plain :: "string \<Rightarrow> bool" where
  "plain s = (s \<noteq> [] \<and> comma \<notin> set s \<and> hd s \<noteq> quote \<and> last s \<noteq> quote)"

section \<open>Dropping the header\<close>

text \<open>
  \<^verbatim>\<open>RDD.first()\<close> returns the first element and raises \<^verbatim>\<open>ValueError\<close> on an empty
  RDD.
\<close>

definition rdd_first :: "'a list \<Rightarrow> error + 'a" where
  "rdd_first rdd = (case rdd of [] \<Rightarrow> Inl ValueError | x # _ \<Rightarrow> Inr x)"

text \<open>
  \<^verbatim>\<open>
  header = raw_rdd.first()
  data_rdd = raw_rdd.filter(lambda line: line != header)
  \<close>
\<close>

definition data_rdd :: "string list \<Rightarrow> error + string list" where
  "data_rdd raw_rdd =
     (case rdd_first raw_rdd of
        Inl e \<Rightarrow> Inl e
      | Inr header \<Rightarrow> Inr (filter (\<lambda>line. line \<noteq> header) raw_rdd))"

section \<open>Split for training and test\<close>

text \<open>
  Modelled from the spec: \<^verbatim>\<open>RDD.randomSplit\<close> is a routine of the Spark library; the
  notebook holds only its call
  \<^verbatim>\<open>training_rdd, test_rdd = labeled_points_rdd.randomSplit([0.7, 0.3], seed = 0)\<close>.
  The specification describes it as a seeded random assignment of every record to one of
  two subsets approximating the given ratio, deterministic for a given seed and input
  order. The pseudo-random generator is the parameter \<open>rng\<close>: \<open>rng seed i\<close> is the draw
  for the record at position \<open>i\<close> of the input. A record goes to the training subset when
  its draw lies below the normalised training weight, and to the test subset otherwise;
  both subsets keep the input order.
\<close>

definition randomSplit ::
  "(int \<Rightarrow> nat \<Rightarrow> real) \<Rightarrow> real \<times> real \<Rightarrow> int \<Rightarrow> 'a list \<Rightarrow> 'a list \<times> 'a list" where
  "randomSplit rng weights seed rdd =
     (let bound = fst weights / (fst weights + snd weights);
          drawn = zip rdd [0..<length rdd]
      in (map fst (filter (\<lambda>p. rng seed (snd p) < bound) drawn),
          map fst (filter (\<lambda>p. \<not> rng seed (snd p) < bound) drawn)))"

section \<open>Accuracy on the test set\<close>

text \<open>
  \<^verbatim>\<open>RDD.zip\<close> pairs the elements of two RDDs position by position; Spark fails the
  job when they do not hold the same number of elements.
\<close>

definition rdd_zip :: "'a list \<Rightarrow> 'b list \<Rightarrow> error + ('a \<times> 'b) list" where
  "rdd_zip xs ys = (if length xs = length ys then Inr (zip xs ys) else Inl SparkException)"

text \<open>
  \<^verbatim>\<open>
  predictions_rdd = model.predict(test_rdd.map(lambda x: x.features))
  truth_and_predictions_rdd = test_rdd.map(lambda lp: lp.label).zip(predictions_rdd)
  \<close>
  The trained model is opaque: \<open>predict\<close> is whatever function of the feature vector it
  computes.
\<close>

definition predictions_rdd :: "(real list \<Rightarrow> real) \<Rightarrow> LabeledPoint list \<Rightarrow> real list" where
  "predictions_rdd predict test_rdd = map predict (map features test_rdd)"

definition truth_and_predictions_rdd ::
  "LabeledPoint list \<Rightarrow> real list \<Rightarrow> error + (real \<times> real) list" where
  "truth_and_predictions_rdd test_rdd predictions = rdd_zip (map label test_rdd) predictions"

text \<open>
  \<^verbatim>\<open>
  test_count = test_rdd.count()
  accuracy = truth_and_predictions_rdd.filter(lambda v_p: v_p[0] == v_p[1]).count() / float(test_count)
  \<close>
  Both counts are Python integers. \<^verbatim>\<open>float(test_count)\<close> converts the second one to a
  double, the division converts the first one, and the quotient of the two doubles is
  again a double. A double is modelled by the real number it stands for.

  \<open>bit_length\<close> is \<^verbatim>\<open>int.bit_length\<close>, the number of binary digits of a natural number,
  and \<open>rne_div n d\<close> is the integer nearest to \<open>n / d\<close>, the even one of the two when
  \<open>n / d\<close> lies half way between them.
\<close>

fun bit_length :: "nat \<Rightarrow> nat" where
  "bit_length n = (if n = 0 then 0 else Suc (bit_length (n div 2)))"

declare bit_length.simps [simp del]

definition rne_div :: "nat \<Rightarrow> nat \<Rightarrow> nat" where
  "rne_div n d =
     (let q = n div d; r = n mod d
      in if 2 * r < d then q
         else if d < 2 * r then q + 1
         else if even q then q else q + 1)"

text \<open>
  \<^verbatim>\<open>float(n)\<close> for a Python integer \<open>n \<ge> 0\<close>: the nearest double, ties to even. Integers
  below \<open>2^53\<close> are doubles themselves; a larger one keeps its 53 leading binary digits,
  rounded. The result is again an integer. Python raises \<^verbatim>\<open>OverflowError\<close> when the
  rounded value reaches \<open>2^1024\<close>.
\<close>

definition py_float :: "nat \<Rightarrow> error + nat" where
  "py_float n =
     (if n < 2 ^ 53 then Inr n
      else
        let j = bit_length n - 53;
            v = rne_div n (2 ^ j) * 2 ^ j
        in if v < 2 ^ 1024 then Inr v else Inl OverflowError)"

text \<open>
  The quotient \<open>a / b\<close> of two doubles that hold the natural numbers \<open>a\<close> and \<open>b > 0\<close>,
  rounded to the nearest double, ties to even (IEEE 754 binary64, which is what Python's
  float division computes). \<open>ex\<close> is the binary exponent of the exact quotient, that is
  \<open>2^ex \<le> a / b < 2^(ex + 1)\<close>; a double with this exponent is a multiple of
  \<open>2^(ex - 52)\<close>, and no double is a finer multiple than of \<open>2^(- 1074)\<close>. The quotient
  cannot overflow, since it is at most \<open>a\<close>.
\<close>

definition float_div :: "nat \<Rightarrow> nat \<Rightarrow> real" where
  "float_div a b =
     (if a = 0 then 0
      else
        let e = int (bit_length a) - int (bit_length b);
            ex = (if (if 0 \<le> e then b * 2 ^ nat e \<le> a else b \<le> a * 2 ^ nat (- e))
                  then e else e - 1);
            s = min (52 - ex) 1074
        in if 0 \<le> s then real (rne_div (a * 2 ^ nat s) b) / 2 ^ nat s
           else real (rne_div a (b * 2 ^ nat (- s))) * 2 ^ nat (- s))"

text \<open>
  The cell itself: the left operand is computed first, then \<^verbatim>\<open>float(test_count)\<close>, then
  the division, which converts the left operand and raises \<^verbatim>\<open>ZeroDivisionError\<close> when
  the divisor is \<open>0.0\<close>.
\<close>

definition accuracy :: "LabeledPoint list \<Rightarrow> real list \<Rightarrow> error + real" where
  "accuracy test_rdd predictions =
     (case truth_and_predictions_rdd test_rdd predictions of
        Inl e \<Rightarrow> Inl e
      | Inr pairs \<Rightarrow>
          (let matches = length (filter (\<lambda>v_p. fst v_p = snd v_p) pairs);
               test_count = length test_rdd
           in case py_float test_count of
                Inl e \<Rightarrow> Inl e
              | Inr divisor \<Rightarrow>
                  (case py_float matches of
                     Inl e \<Rightarrow> Inl e
                   | Inr dividend \<Rightarrow>
                       if divisor = 0 then Inl ZeroDivisionError
                       else Inr (float_div dividend divisor))))"

section \<open>Reading the codes back\<close>

text \<open>
  Reading a labeled point back. \<open>row_to_labeled_point\<close> gives the code 1 to the texts
  \<^verbatim>\<open>adults\<close>, \<^verbatim>\<open>women\<close> and \<^verbatim>\<open>yes\<close> and the code 0 to the other text of each of its
  three lists, and it gives a class text the value of its first digit minus one. The
  functions \<open>decode_class\<close>, \<open>decode_age\<close>, \<open>decode_sex\<close> and \<open>decode_survived\<close> invert
  exactly this, the class on the three class texts of the data file. They are not part
  of the notebook.

  The notebook has a legend of its own for the codes:
  \<^verbatim>\<open>
  survival (truth): 0=no, 1=yes
  ticket class: 0=1st class, 1=2nd class, 2=3rd class
  age group: 0=child, 1=adults
  gender: 0=man, 1=woman
  \<close>
  It agrees with the decoders except for the gender 1, which it spells \<^verbatim>\<open>woman\<close> while the
  data file and the parser spell it \<^verbatim>\<open>women\<close>; \<open>legend_gender\<close> is the legend's line as
  it is written.
\<close>

definition known_classes :: "string list" where
  "known_classes = [''1st class'', ''2nd class'', ''3rd class'']"

definition decode_class :: "real \<Rightarrow> string option" where
  "decode_class c =
     (if c = 0 then Some ''1st class''
      else if c = 1 then Some ''2nd class''
      else if c = 2 then Some ''3rd class''
      else None)"

definition decode_age :: "real \<Rightarrow> string option" where
  "decode_age c = (if c = 1 then Some ''adults'' else if c = 0 then Some ''child'' else None)"

definition decode_sex :: "real \<Rightarrow> string option" where
  "decode_sex c = (if c = 1 then Some ''women'' else if c = 0 then Some ''man'' else None)"

definition decode_survived :: "real \<Rightarrow> string option" where
  "decode_survived c = (if c = 1 then Some ''yes'' else if c = 0 then Some ''no'' else None)"

definition legend_gender :: "real \<Rightarrow> string option" where
  "legend_gender c = (if c = 0 then Some ''man'' else if c = 1 then Some ''woman'' else None)"

section \<open>The parser, case by case\<close>

text \<open>
  What \<open>row_to_labeled_point\<close> returns is fixed by the segments of the line: with five
  segments and a class segment that starts with a digit the membership tests decide;
  with five segments and any other class segment the conversion of the class fails; with
  any other number of segments the unpacking fails.
\<close>

lemma py_split_not_empty: "py_split sep s \<noteq> []"
  by (induction s) (simp_all split: list.splits)

lemma length_py_split: "length (py_split sep s) = Suc (length (filter (\<lambda>c. c = sep) s))"
proof (induction s)
  case Nil
  show ?case by simp
next
  case (Cons c cs)
  obtain w ws where w: "py_split sep cs = w # ws"
    using py_split_not_empty [of sep cs] by (cases "py_split sep cs") simp_all
  with Cons show ?case by (cases "c = sep") simp_all
qed

lemma length_segments: "length (segments line) = Suc (length (filter (\<lambda>c. c = comma) line))"
  by (simp add: segments_def length_py_split)

lemma row_of_segments:
  assumes "segments line = [passenger_id, k0 # krest, age, sex, survived]" and "is_digit k0"
  shows "row_to_labeled_point line =
     (if age \<notin> set [''adults'', ''child''] \<or> sex \<notin> set [''man'', ''women''] \<or>
         survived \<notin> set [''yes'', ''no'']
      then Inl (RuntimeError ''unknown value'')
      else Inr \<lparr>label = (if survived = ''yes'' then 1 else 0),
                features = [real_of_int (int (of_char k0) - 48 - 1),
                            (if age = ''adults'' then 1 else 0),
                            (if sex = ''women'' then 1 else 0)]\<rparr>)"
  using assms unfolding row_to_labeled_point_def py_int_char_def by (simp add: Let_def)

lemma row_of_segments_bad_class:
  assumes "segments line = [passenger_id, klass, age, sex, survived]"
    and "klass = [] \<or> \<not> is_digit (hd klass)"
  shows "row_to_labeled_point line = Inl (if klass = [] then IndexError else ValueError)"
  using assms unfolding row_to_labeled_point_def py_int_char_def
  by (cases klass) (simp_all add: Let_def)

lemma case_five_default:
  "length xs \<noteq> 5 \<Longrightarrow>
   (case xs of [a, b, c, d, e] \<Rightarrow> f a b c d e | _ \<Rightarrow> g) = g"
  by (auto split: list.splits)

lemma row_not_five:
  assumes "length (segments line) \<noteq> 5"
  shows "row_to_labeled_point line = Inl ValueError"
  unfolding row_to_labeled_point_def using assms by (rule case_five_default)

lemma five_segments:
  assumes "length xs = 5"
  obtains a b c d e where "xs = [a, b, c, d, e]"
  using assms by (auto simp: numeral_eq_Suc length_Suc_conv)

lemma row_needs_five_segments:
  assumes "row_to_labeled_point line = Inr lp"
  obtains passenger_id k0 krest age sex survived where
    "segments line = [passenger_id, k0 # krest, age, sex, survived]" and "is_digit k0"
proof -
  have "length (segments line) = 5"
  proof (rule ccontr)
    assume "length (segments line) \<noteq> 5"
    from row_not_five [OF this] assms show False by simp
  qed
  then obtain passenger_id klass age sex survived where
    segs: "segments line = [passenger_id, klass, age, sex, survived]"
    by (rule five_segments)
  have good: "\<not> (klass = [] \<or> \<not> is_digit (hd klass))"
  proof
    assume "klass = [] \<or> \<not> is_digit (hd klass)"
    from row_of_segments_bad_class [OF segs this] assms show False by simp
  qed
  then obtain k0 krest where "klass = k0 # krest" and "is_digit k0"
    by (cases klass) simp_all
  with segs that show thesis by blast
qed

text \<open>The three class texts of the legend start with a digit, and the legend reads their codes back.\<close>

lemma is_digit_123: "is_digit CHR ''1''" "is_digit CHR ''2''" "is_digit CHR ''3''"
  by (simp_all add: is_digit_def)

lemma decode_class_123:
  "decode_class (real_of_int (int (of_char CHR ''1'') - 48 - 1)) = Some ''1st class''"
  "decode_class (real_of_int (int (of_char CHR ''2'') - 48 - 1)) = Some ''2nd class''"
  "decode_class (real_of_int (int (of_char CHR ''3'') - 48 - 1)) = Some ''3rd class''"
  by (simp_all add: decode_class_def)

lemma known_class_digit:
  assumes "klass \<in> set known_classes"
  obtains k0 krest where "klass = k0 # krest" and "is_digit k0"
    and "decode_class (real_of_int (int (of_char k0) - 48 - 1)) = Some klass"
proof -
  from assms consider "klass = ''1st class''" | "klass = ''2nd class''" | "klass = ''3rd class''"
    unfolding known_classes_def by fastforce
  then show thesis
  proof cases
    case 1
    show thesis
      by (rule that [of "CHR ''1''" "''st class''"]) (simp_all only: 1 is_digit_123 decode_class_123)
  next
    case 2
    show thesis
      by (rule that [of "CHR ''2''" "''nd class''"]) (simp_all only: 2 is_digit_123 decode_class_123)
  next
    case 3
    show thesis
      by (rule that [of "CHR ''3''" "''rd class''"]) (simp_all only: 3 is_digit_123 decode_class_123)
  qed
qed

text \<open>
  A row written by \<open>csv_line\<close> from plain fields is split into exactly these fields; the
  passenger number may hold anything but a comma. The texts that the parser knows are
  plain.
\<close>

lemma py_split_no_sep: "sep \<notin> set xs \<Longrightarrow> py_split sep xs = [xs]"
  by (induction xs) auto

lemma py_split_append:
  "sep \<notin> set xs \<Longrightarrow> py_split sep (xs @ sep # ys) = xs # py_split sep ys"
  by (induction xs) auto

lemma py_strip_quoted:
  assumes "s \<noteq> []" and "hd s \<noteq> quote" and "last s \<noteq> quote"
  shows "py_strip [quote] (quoted s) = s"
proof -
  from assms(1,2) obtain x xs where s: "s = x # xs" and x: "x \<noteq> quote"
    by (cases s) simp_all
  have lead: "dropWhile (\<lambda>c. c \<in> set [quote]) (quoted s) = s @ [quote]"
    using x by (simp add: quoted_def s)
  from assms(1,3) have trail: "dropWhile (\<lambda>c. c = quote) (rev s) = rev s"
    by (cases "rev s") (simp_all add: last_rev [symmetric] hd_rev)
  show ?thesis
    unfolding py_strip_def lead by (simp add: trail)
qed

lemma comma_not_in_quoted: "comma \<notin> set s \<Longrightarrow> comma \<notin> set (quoted s)"
  by (simp add: quoted_def comma_def quote_def)

lemma segments_csv_line:
  assumes "comma \<notin> set passenger_id" and "plain klass" and "plain age" and "plain sex"
    and "plain survived"
  shows "segments (csv_line passenger_id klass age sex survived) =
           [py_strip [quote] (quoted passenger_id), klass, age, sex, survived]"
proof -
  have c: "comma \<notin> set (quoted passenger_id)" "comma \<notin> set (quoted klass)"
    "comma \<notin> set (quoted age)" "comma \<notin> set (quoted sex)" "comma \<notin> set (quoted survived)"
    using assms by (simp_all add: plain_def comma_not_in_quoted)
  have "py_split comma (csv_line passenger_id klass age sex survived) =
          [quoted passenger_id, quoted klass, quoted age, quoted sex, quoted survived]"
    unfolding csv_line_def
    by (simp only: py_split_append [OF c(1)] py_split_append [OF c(2)]
        py_split_append [OF c(3)] py_split_append [OF c(4)] py_split_no_sep [OF c(5)])
  moreover have "py_strip [quote] (quoted klass) = klass" "py_strip [quote] (quoted age) = age"
    "py_strip [quote] (quoted sex) = sex" "py_strip [quote] (quoted survived) = survived"
    using assms by (simp_all add: plain_def py_strip_quoted)
  ultimately show ?thesis by (simp add: segments_def)
qed

lemma plain_known:
  "plain ''1st class''" "plain ''2nd class''" "plain ''3rd class''"
  "plain ''adults''" "plain ''child''" "plain ''man''" "plain ''women''"
  "plain ''yes''" "plain ''no''"
  by (simp_all add: plain_def comma_def quote_def)

lemma plain_class: "klass \<in> set known_classes \<Longrightarrow> plain klass"
proof -
  assume "klass \<in> set known_classes"
  then consider "klass = ''1st class''" | "klass = ''2nd class''" | "klass = ''3rd class''"
    unfolding known_classes_def by fastforce
  then show ?thesis by cases (simp_all only: plain_known)
qed

lemma plain_age: "age \<in> {''adults'', ''child''} \<Longrightarrow> plain age"
proof -
  assume "age \<in> {''adults'', ''child''}"
  then consider "age = ''adults''" | "age = ''child''" by fastforce
  then show ?thesis by cases (simp_all only: plain_known)
qed

lemma plain_sex: "sex \<in> {''man'', ''women''} \<Longrightarrow> plain sex"
proof -
  assume "sex \<in> {''man'', ''women''}"
  then consider "sex = ''man''" | "sex = ''women''" by fastforce
  then show ?thesis by cases (simp_all only: plain_known)
qed

lemma plain_survived: "survived \<in> {''yes'', ''no''} \<Longrightarrow> plain survived"
proof -
  assume "survived \<in> {''yes'', ''no''}"
  then consider "survived = ''yes''" | "survived = ''no''" by fastforce
  then show ?thesis by cases (simp_all only: plain_known)
qed

lemma class_code_known:
  assumes "klass \<in> set known_classes"
  obtains k0 krest where "klass = k0 # krest" and "is_digit k0"
    and "real_of_int (int (of_char k0) - 48 - 1) =
           (if klass = ''1st class'' then 0 else if klass = ''2nd class'' then 1 else 2)"
proof -
  from assms consider "klass = ''1st class''" | "klass = ''2nd class''" | "klass = ''3rd class''"
    unfolding known_classes_def by fastforce
  then show thesis
  proof cases
    case 1
    show thesis
      by (rule that [of "CHR ''1''" "''st class''"]) (simp_all add: 1 is_digit_123)
  next
    case 2
    show thesis
      by (rule that [of "CHR ''2''" "''nd class''"]) (simp_all add: 2 is_digit_123)
  next
    case 3
    show thesis
      by (rule that [of "CHR ''3''" "''rd class''"]) (simp_all add: 3 is_digit_123)
  qed
qed

section \<open>Which lines the parser accepts\<close>

text \<open>
  C1, as the specification words it, fails: a line of five segments with the class
  \<^verbatim>\<open>1st class\<close>, the age \<^verbatim>\<open>adult\<close>, the sex \<^verbatim>\<open>woman\<close> and the outcome \<^verbatim>\<open>yes\<close> is not
  accepted. The membership tests of \<open>row_to_labeled_point\<close> know the spellings of the
  data file, \<^verbatim>\<open>adults\<close> and \<^verbatim>\<open>women\<close>, and raise \<^verbatim>\<open>RuntimeError\<close> on these.
\<close>

theorem row_to_labeled_point_rejects_adult_woman:
  \<open>segments ''"1","1st class","adult","woman","yes"'' = [''1'', ''1st class'', ''adult'', ''woman'', ''yes'']
   \<and> row_to_labeled_point ''"1","1st class","adult","woman","yes"'' = Inl (RuntimeError ''unknown value'')\<close>
  by (simp add: row_to_labeled_point_def segments_def py_strip_def quote_def comma_def
      py_int_char_def is_digit_def)

text \<open>
  C1, amended: a line of five segments whose class is one of the three class texts
  \<^verbatim>\<open>1st class\<close>, \<^verbatim>\<open>2nd class\<close>, \<^verbatim>\<open>3rd class\<close> is accepted exactly when its age is
  \<^verbatim>\<open>adults\<close> or \<^verbatim>\<open>child\<close>, its sex is \<^verbatim>\<open>man\<close> or \<^verbatim>\<open>women\<close> and its outcome is \<^verbatim>\<open>yes\<close>
  or \<^verbatim>\<open>no\<close>. The class code of an accepted line is 0, 1 or 2 in this order of the class
  texts. In particular such a line with the age \<^verbatim>\<open>adults\<close>, the sex \<^verbatim>\<open>women\<close> and one of the
  two outcomes is accepted.
\<close>

theorem row_to_labeled_point_accepts_iff:
  assumes "segments line = [passenger_id, klass, age, sex, survived]"
    and "klass \<in> set known_classes"
  shows "((\<exists>lp. row_to_labeled_point line = Inr lp) \<longleftrightarrow>
            age \<in> {''adults'', ''child''} \<and> sex \<in> {''man'', ''women''} \<and>
            survived \<in> {''yes'', ''no''})
       \<and> (\<forall>lp. row_to_labeled_point line = Inr lp \<longrightarrow>
              features lp ! 0 =
                (if klass = ''1st class'' then 0 else if klass = ''2nd class'' then 1 else 2))
       \<and> (age = ''adults'' \<and> sex = ''women'' \<and> survived \<in> {''yes'', ''no''} \<longrightarrow>
              (\<exists>lp. row_to_labeled_point line = Inr lp))"
proof -
  from assms(2) obtain k0 krest where kl: "klass = k0 # krest" and dig: "is_digit k0"
    and code: "real_of_int (int (of_char k0) - 48 - 1) =
           (if klass = ''1st class'' then 0 else if klass = ''2nd class'' then 1 else 2)"
    by (rule class_code_known)
  let ?bad = "age \<notin> set [''adults'', ''child''] \<or> sex \<notin> set [''man'', ''women''] \<or>
              survived \<notin> set [''yes'', ''no'']"
  let ?code = "(if klass = ''1st class'' then 0 else if klass = ''2nd class'' then 1 else 2) :: real"
  note row = row_of_segments [OF assms(1) [unfolded kl] dig, unfolded code]
  show ?thesis
  proof (cases ?bad)
    case True
    with row have "row_to_labeled_point line = Inl (RuntimeError ''unknown value'')"
      by (simp only: if_True)
    with True show ?thesis by auto
  next
    case False
    with row have "row_to_labeled_point line =
        Inr \<lparr>label = (if survived = ''yes'' then 1 else 0),
             features = [?code,
                         (if age = ''adults'' then 1 else 0),
                         (if sex = ''women'' then 1 else 0)]\<rparr>"
      by (simp only: if_False)
    with False show ?thesis by auto
  qed
qed

theorem row_to_labeled_point_accepts_iff_witness:
  \<open>segments ''"256","1st class","adults","women","yes"'' = [''256'', ''1st class'', ''adults'', ''women'', ''yes'']
   \<and> ''1st class'' \<in> set known_classes
   \<and> row_to_labeled_point ''"256","1st class","adults","women","yes"'' = Inr \<lparr>label = 1, features = [0, 1, 1]\<rparr>
   \<and> features \<lparr>label = 1, features = [0, 1, 1]\<rparr> ! 0 = 0\<close>
proof -
  have segs: \<open>segments ''"256","1st class","adults","women","yes"'' = [''256'', ''1st class'', ''adults'', ''women'', ''yes'']\<close>
    by (simp add: segments_def py_strip_def quote_def comma_def)
  have k: "''1st class'' \<in> set known_classes"
    by (simp add: known_classes_def)
  have tokens: "''adults'' = ''adults'' \<and> ''women'' = ''women'' \<and> ''yes'' \<in> {''yes'', ''no''}"
    by simp
  note acc_iff = row_to_labeled_point_accepts_iff [OF segs k]
  from acc_iff [THEN conjunct2, THEN conjunct2, THEN mp, OF tokens]
  obtain lp where lp: \<open>row_to_labeled_point ''"256","1st class","adults","women","yes"'' = Inr lp\<close>
    by (elim exE)
  have row: \<open>row_to_labeled_point ''"256","1st class","adults","women","yes"'' = Inr \<lparr>label = 1, features = [0, 1, 1]\<rparr>\<close>
    by (simp add: row_to_labeled_point_def segments_def py_strip_def quote_def comma_def
        py_int_char_def is_digit_def)
  from acc_iff [THEN conjunct2, THEN conjunct1, rule_format, OF row]
  have code: "features \<lparr>label = 1, features = [0, 1, 1]\<rparr> ! 0 = 0" by simp
  show ?thesis
    by (intro conjI) (rule segs, rule k, rule row, rule code)
qed


section \<open>Reading an accepted line back from its codes\<close>

lemma valid_row_decodes:
  assumes segs: "segments line = [passenger_id, klass, age, sex, survived]"
    and k: "klass \<in> set known_classes"
    and a: "age \<in> {''adults'', ''child''}"
    and s: "sex \<in> {''man'', ''women''}"
    and v: "survived \<in> {''yes'', ''no''}"
  shows "\<exists>lp. row_to_labeled_point line = Inr lp \<and> length (features lp) = 3 \<and>
           decode_class (features lp ! 0) = Some klass \<and>
           decode_age (features lp ! 1) = Some age \<and>
           decode_sex (features lp ! 2) = Some sex \<and>
           decode_survived (label lp) = Some survived"
proof -
  from k obtain k0 krest where kl: "klass = k0 # krest" and dig: "is_digit k0"
    and dk: "decode_class (real_of_int (int (of_char k0) - 48 - 1)) = Some klass"
    by (rule known_class_digit)
  let ?lp = "\<lparr>label = (if survived = ''yes'' then 1 else 0),
              features = [real_of_int (int (of_char k0) - 48 - 1),
                          (if age = ''adults'' then 1 else 0),
                          (if sex = ''women'' then 1 else 0)]\<rparr>"
  have "row_to_labeled_point line = Inr ?lp"
    using row_of_segments [OF segs [unfolded kl] dig] a s v by simp
  moreover have "length (features ?lp) = 3" by simp
  moreover have "decode_class (features ?lp ! 0) = Some klass" using dk by simp
  moreover have "decode_age (features ?lp ! 1) = Some age"
    using a by (cases "age = ''adults''") (simp_all add: decode_age_def)
  moreover have "decode_sex (features ?lp ! 2) = Some sex"
    using s by (cases "sex = ''women''") (simp_all add: decode_sex_def)
  moreover have "decode_survived (label ?lp) = Some survived"
    using v by (cases "survived = ''yes''") (simp_all add: decode_survived_def)
  ultimately show ?thesis by (intro exI conjI)
qed

lemma csv_line_decodes:
  assumes "comma \<notin> set passenger_id"
    and "klass \<in> set known_classes"
    and "age \<in> {''adults'', ''child''}"
    and "sex \<in> {''man'', ''women''}"
    and "survived \<in> {''yes'', ''no''}"
  shows "\<exists>lp. row_to_labeled_point (csv_line passenger_id klass age sex survived) = Inr lp \<and>
           length (features lp) = 3 \<and>
           decode_class (features lp ! 0) = Some klass \<and>
           decode_age (features lp ! 1) = Some age \<and>
           decode_sex (features lp ! 2) = Some sex \<and>
           decode_survived (label lp) = Some survived"
proof -
  have "segments (csv_line passenger_id klass age sex survived) =
          [py_strip [quote] (quoted passenger_id), klass, age, sex, survived]"
    using assms(1) plain_class [OF assms(2)] plain_age [OF assms(3)] plain_sex [OF assms(4)]
      plain_survived [OF assms(5)]
    by (rule segments_csv_line)
  from valid_row_decodes [OF this assms(2-5)] show ?thesis .
qed

text \<open>
  C2, as the specification words it, fails. With the categories of the specification a
  row with the age \<^verbatim>\<open>adult\<close> and the sex \<^verbatim>\<open>woman\<close> is a valid data line, and the parser
  raises on it, so there are no codes to read back. And on a row of the data file with
  the sex \<^verbatim>\<open>women\<close> the gender code is 1, which the legend of the notebook reads as
  \<^verbatim>\<open>woman\<close>, not as the text of the row.
\<close>

theorem encoding_round_trip_spec_spelling:
  \<open>row_to_labeled_point ''"2","2nd class","adult","woman","no"'' = Inl (RuntimeError ''unknown value'')
   \<and> row_to_labeled_point ''"256","1st class","adults","women","yes"'' = Inr \<lparr>label = 1, features = [0, 1, 1]\<rparr>
   \<and> legend_gender (features \<lparr>label = 1, features = [0, 1, 1]\<rparr> ! 2) = Some ''woman''
   \<and> ''woman'' \<noteq> ''women''\<close>
  by (simp add: row_to_labeled_point_def segments_def py_strip_def quote_def comma_def
      py_int_char_def is_digit_def legend_gender_def)

text \<open>
  C2, amended: for every row \<open>csv_line passenger_id klass age sex survived\<close> whose
  passenger number holds no comma, whose class is one of \<^verbatim>\<open>1st class\<close>, \<^verbatim>\<open>2nd class\<close>,
  \<^verbatim>\<open>3rd class\<close>, whose age is \<^verbatim>\<open>adults\<close> or \<^verbatim>\<open>child\<close>, whose sex is \<^verbatim>\<open>man\<close> or
  \<^verbatim>\<open>women\<close> and whose outcome is \<^verbatim>\<open>yes\<close> or \<^verbatim>\<open>no\<close>, the parser returns a labeled point,
  and reading its four codes back with the spellings of the parser gives the class, age,
  sex and outcome of the row. Hence two such rows with the same labeled point have the
  same class, age, sex and outcome: the encoding is injective on them.
\<close>

theorem encoding_round_trip:
  assumes "comma \<notin> set passenger_id"
    and "klass \<in> set known_classes"
    and "age \<in> {''adults'', ''child''}"
    and "sex \<in> {''man'', ''women''}"
    and "survived \<in> {''yes'', ''no''}"
  shows "(\<exists>lp. row_to_labeled_point (csv_line passenger_id klass age sex survived) = Inr lp \<and>
            length (features lp) = 3 \<and>
            decode_class (features lp ! 0) = Some klass \<and>
            decode_age (features lp ! 1) = Some age \<and>
            decode_sex (features lp ! 2) = Some sex \<and>
            decode_survived (label lp) = Some survived)
       \<and> (\<forall>passenger_id' klass' age' sex' survived'.
            comma \<notin> set passenger_id' \<and>
            klass' \<in> set known_classes \<and> age' \<in> {''adults'', ''child''} \<and>
            sex' \<in> {''man'', ''women''} \<and> survived' \<in> {''yes'', ''no''} \<and>
            row_to_labeled_point (csv_line passenger_id' klass' age' sex' survived') =
              row_to_labeled_point (csv_line passenger_id klass age sex survived) \<longrightarrow>
            klass' = klass \<and> age' = age \<and> sex' = sex \<and> survived' = survived)"
proof (rule conjI)
  show "\<exists>lp. row_to_labeled_point (csv_line passenger_id klass age sex survived) = Inr lp \<and>
            length (features lp) = 3 \<and>
            decode_class (features lp ! 0) = Some klass \<and>
            decode_age (features lp ! 1) = Some age \<and>
            decode_sex (features lp ! 2) = Some sex \<and>
            decode_survived (label lp) = Some survived"
    using assms by (rule csv_line_decodes)
  then obtain lp where
    lp: "row_to_labeled_point (csv_line passenger_id klass age sex survived) = Inr lp"
    and d: "decode_class (features lp ! 0) = Some klass"
      "decode_age (features lp ! 1) = Some age"
      "decode_sex (features lp ! 2) = Some sex"
      "decode_survived (label lp) = Some survived"
    by (elim exE conjE)
  show "\<forall>passenger_id' klass' age' sex' survived'.
            comma \<notin> set passenger_id' \<and>
            klass' \<in> set known_classes \<and> age' \<in> {''adults'', ''child''} \<and>
            sex' \<in> {''man'', ''women''} \<and> survived' \<in> {''yes'', ''no''} \<and>
            row_to_labeled_point (csv_line passenger_id' klass' age' sex' survived') =
              row_to_labeled_point (csv_line passenger_id klass age sex survived) \<longrightarrow>
            klass' = klass \<and> age' = age \<and> sex' = sex \<and> survived' = survived"
  proof (intro allI impI, elim conjE)
    fix passenger_id' klass' age' sex' survived'
    assume h: "comma \<notin> set passenger_id'"
      "klass' \<in> set known_classes" "age' \<in> {''adults'', ''child''}"
      "sex' \<in> {''man'', ''women''}" "survived' \<in> {''yes'', ''no''}"
      and same: "row_to_labeled_point (csv_line passenger_id' klass' age' sex' survived') =
              row_to_labeled_point (csv_line passenger_id klass age sex survived)"
    from csv_line_decodes [OF h]
    obtain lp' where
      lp': "row_to_labeled_point (csv_line passenger_id' klass' age' sex' survived') = Inr lp'"
      and d': "decode_class (features lp' ! 0) = Some klass'"
        "decode_age (features lp' ! 1) = Some age'"
        "decode_sex (features lp' ! 2) = Some sex'"
        "decode_survived (label lp') = Some survived'"
      by (elim exE conjE)
    from same lp lp' have "lp' = lp" by simp
    with d d' show "klass' = klass \<and> age' = age \<and> sex' = sex \<and> survived' = survived"
      by simp
  qed
qed

theorem encoding_round_trip_witness:
  \<open>comma \<notin> set ''1204''
   \<and> ''3rd class'' \<in> set known_classes
   \<and> csv_line ''1204'' ''3rd class'' ''adults'' ''women'' ''no'' = ''"1204","3rd class","adults","women","no"''
   \<and> row_to_labeled_point ''"1204","3rd class","adults","women","no"'' = Inr \<lparr>label = 0, features = [2, 1, 1]\<rparr>
   \<and> decode_class 2 = Some ''3rd class'' \<and> decode_age 1 = Some ''adults''
   \<and> decode_sex 1 = Some ''women'' \<and> decode_survived 0 = Some ''no''\<close>
proof -
  have p: "comma \<notin> set ''1204''" by (simp add: comma_def)
  have k: "''3rd class'' \<in> set known_classes"
    by (simp add: known_classes_def)
  have a: "''adults'' \<in> {''adults'', ''child''}" by simp
  have s: "''women'' \<in> {''man'', ''women''}" by simp
  have v: "''no'' \<in> {''yes'', ''no''}" by simp
  have line: \<open>csv_line ''1204'' ''3rd class'' ''adults'' ''women'' ''no'' = ''"1204","3rd class","adults","women","no"''\<close>
    by (simp add: csv_line_def quoted_def quote_def comma_def)
  have row: \<open>row_to_labeled_point ''"1204","3rd class","adults","women","no"'' = Inr \<lparr>label = 0, features = [2, 1, 1]\<rparr>\<close>
    by (simp add: row_to_labeled_point_def segments_def py_strip_def quote_def comma_def
        py_int_char_def is_digit_def)
  from encoding_round_trip [OF p k a s v, THEN conjunct1, unfolded line] row
  have "decode_class 2 = Some ''3rd class'' \<and> decode_age 1 = Some ''adults''
      \<and> decode_sex 1 = Some ''women'' \<and> decode_survived 0 = Some ''no''"
    by simp
  with p k line row show ?thesis by (intro conjI) simp_all
qed

section \<open>Lines the parser refuses, and the range of its codes\<close>

text \<open>
  C3: a line of five segments whose age is neither \<^verbatim>\<open>adults\<close> nor \<^verbatim>\<open>child\<close>, or whose
  sex is neither \<^verbatim>\<open>man\<close> nor \<^verbatim>\<open>women\<close>, or whose outcome is neither \<^verbatim>\<open>yes\<close> nor
  \<^verbatim>\<open>no\<close>, makes \<open>row_to_labeled_point\<close> raise: the result is an error and never a
  labeled point. When the class segment starts with a digit the error is the
  \<^verbatim>\<open>RuntimeError('unknown value')\<close> of the membership tests; otherwise the conversion of
  the class has already raised.
\<close>

theorem row_to_labeled_point_rejects_unknown:
  assumes "segments line = [passenger_id, klass, age, sex, survived]"
    and "age \<notin> {''adults'', ''child''} \<or> sex \<notin> {''man'', ''women''} \<or>
         survived \<notin> {''yes'', ''no''}"
  shows "(\<exists>e. row_to_labeled_point line = Inl e) \<and>
         (klass \<noteq> [] \<and> is_digit (hd klass) \<longrightarrow>
            row_to_labeled_point line = Inl (RuntimeError ''unknown value''))"
proof (cases "klass = [] \<or> \<not> is_digit (hd klass)")
  case True
  from row_of_segments_bad_class [OF assms(1) True] True show ?thesis by blast
next
  case False
  then obtain k0 krest where kl: "klass = k0 # krest" and dig: "is_digit k0"
    by (cases klass) simp_all
  from assms(2) have bad: "age \<notin> set [''adults'', ''child''] \<or> sex \<notin> set [''man'', ''women''] \<or>
      survived \<notin> set [''yes'', ''no'']"
    by simp
  from row_of_segments [OF assms(1) [unfolded kl] dig] bad
  have "row_to_labeled_point line = Inl (RuntimeError ''unknown value'')"
    by (simp only: if_True)
  then show ?thesis by blast
qed

theorem row_to_labeled_point_rejects_unknown_witness:
  \<open>segments ''"7","2nd class","adults","boy","yes"'' = [''7'', ''2nd class'', ''adults'', ''boy'', ''yes'']
   \<and> ''boy'' \<notin> {''man'', ''women''}
   \<and> ''2nd class'' \<noteq> [] \<and> is_digit (hd ''2nd class'')
   \<and> row_to_labeled_point ''"7","2nd class","adults","boy","yes"'' = Inl (RuntimeError ''unknown value'')\<close>
proof -
  have segs: \<open>segments ''"7","2nd class","adults","boy","yes"'' = [''7'', ''2nd class'', ''adults'', ''boy'', ''yes'']\<close>
    by (simp add: segments_def py_strip_def quote_def comma_def)
  have bad: "''boy'' \<notin> {''man'', ''women''}" by simp
  have cls: "''2nd class'' \<noteq> [] \<and> is_digit (hd ''2nd class'')"
    by (simp add: is_digit_def)
  from bad have "''adults'' \<notin> {''adults'', ''child''} \<or> ''boy'' \<notin> {''man'', ''women''} \<or>
         ''yes'' \<notin> {''yes'', ''no''}"
    by (intro disjI2 disjI1)
  from row_to_labeled_point_rejects_unknown [OF segs this] cls
  have \<open>row_to_labeled_point ''"7","2nd class","adults","boy","yes"'' = Inl (RuntimeError ''unknown value'')\<close>
    by blast
  with segs bad cls show ?thesis by blast
qed

text \<open>
  C4 says that no labeled point with a class code outside \<open>{0, 1, 2}\<close> is ever produced.
  The class is the one field that \<open>row_to_labeled_point\<close> does not test for membership:
  the line below, with the class \<^verbatim>\<open>4th class\<close>, is accepted with the class code 3, while
  the legend of the notebook knows three classes and the decision tree is trained with
  three categories for this feature.
\<close>

theorem row_to_labeled_point_fourth_class:
  \<open>row_to_labeled_point ''"1","4th class","adults","man","yes"'' = Inr \<lparr>label = 1, features = [3, 1, 0]\<rparr>\<close>
  by (simp add: row_to_labeled_point_def segments_def py_strip_def quote_def comma_def
      py_int_char_def is_digit_def)

theorem row_to_labeled_point_fourth_class_witness:
  \<open>\<exists>lp. row_to_labeled_point ''"1","4th class","adults","man","yes"'' = Inr lp \<and>
         features lp ! 0 \<notin> {0, 1, 2}\<close>
proof (intro exI conjI)
  show \<open>row_to_labeled_point ''"1","4th class","adults","man","yes"'' = Inr \<lparr>label = 1, features = [3, 1, 0]\<rparr>\<close>
    by (rule row_to_labeled_point_fourth_class)
  show "features \<lparr>label = 1, features = [3, 1, 0]\<rparr> ! 0 \<notin> {0, 1, 2}"
    by simp
qed

text \<open>
  C5: the first data row of the file, \<^verbatim>\<open>"1","1st class","adults","man","yes"\<close>, is parsed
  to the label 1 and the features \<open>[0, 1, 0]\<close>.
\<close>

theorem row_to_labeled_point_first_row:
  \<open>row_to_labeled_point ''"1","1st class","adults","man","yes"'' = Inr \<lparr>label = 1, features = [0, 1, 0]\<rparr>\<close>
  by (simp add: row_to_labeled_point_def segments_def py_strip_def quote_def comma_def
      py_int_char_def is_digit_def)

theorem row_to_labeled_point_first_row_witness:
  \<open>\<exists>lp. row_to_labeled_point ''"1","1st class","adults","man","yes"'' = Inr lp \<and>
         label lp = 1 \<and> features lp = [0, 1, 0]\<close>
proof (intro exI conjI)
  show \<open>row_to_labeled_point ''"1","1st class","adults","man","yes"'' = Inr \<lparr>label = 1, features = [0, 1, 0]\<rparr>\<close>
    by (rule row_to_labeled_point_first_row)
  show "label \<lparr>label = 1, features = [0, 1, 0]\<rparr> = 1" by simp
  show "features \<lparr>label = 1, features = [0, 1, 0]\<rparr> = [0, 1, 0]" by simp
qed

lemma class_code_below_range:
  \<open>row_to_labeled_point ''"9","0","child","man","no"'' = Inr \<lparr>label = 0, features = [- 1, 0, 0]\<rparr>\<close>
  by (simp add: row_to_labeled_point_def segments_def py_strip_def quote_def comma_def
      py_int_char_def is_digit_def)

text \<open>
  C9: every labeled point that \<open>row_to_labeled_point\<close> returns has three features, a
  label that is 0 or 1, an age code that is 0 or 1 and a gender code that is 0 or 1.
  The class code is not confined in this way: some accepted line has a class code
  outside \<open>{0, 1, 2}\<close>.
\<close>

theorem row_to_labeled_point_binary_codes:
  assumes "row_to_labeled_point line = Inr lp"
  shows "label lp \<in> {0, 1} \<and> length (features lp) = 3 \<and>
         features lp ! 1 \<in> {0, 1} \<and> features lp ! 2 \<in> {0, 1} \<and>
         (\<exists>line' lp'. row_to_labeled_point line' = Inr lp' \<and> features lp' ! 0 \<notin> {0, 1, 2})"
proof -
  from assms obtain passenger_id k0 krest age sex survived where
    segs: "segments line = [passenger_id, k0 # krest, age, sex, survived]" and dig: "is_digit k0"
    by (rule row_needs_five_segments)
  let ?bad = "age \<notin> set [''adults'', ''child''] \<or> sex \<notin> set [''man'', ''women''] \<or>
              survived \<notin> set [''yes'', ''no'']"
  note row = row_of_segments [OF segs dig]
  have "\<not> ?bad"
  proof
    assume ?bad
    with row have "row_to_labeled_point line = Inl (RuntimeError ''unknown value'')"
      by (simp only: if_True)
    with assms show False by simp
  qed
  with row have "row_to_labeled_point line =
        Inr \<lparr>label = (if survived = ''yes'' then 1 else 0),
             features = [real_of_int (int (of_char k0) - 48 - 1),
                         (if age = ''adults'' then 1 else 0),
                         (if sex = ''women'' then 1 else 0)]\<rparr>"
    by (simp only: if_False)
  with assms have lp: "lp = \<lparr>label = (if survived = ''yes'' then 1 else 0),
             features = [real_of_int (int (of_char k0) - 48 - 1),
                         (if age = ''adults'' then 1 else 0),
                         (if sex = ''women'' then 1 else 0)]\<rparr>"
    by simp
  have "label lp \<in> {0, 1}" "length (features lp) = 3"
    "features lp ! 1 \<in> {0, 1}" "features lp ! 2 \<in> {0, 1}"
    unfolding lp by simp_all
  moreover have "\<exists>line' lp'. row_to_labeled_point line' = Inr lp' \<and> features lp' ! 0 \<notin> {0, 1, 2}"
    by (rule exI, rule exI, rule conjI, rule class_code_below_range) simp
  ultimately show ?thesis by (intro conjI)
qed

theorem row_to_labeled_point_binary_codes_witness:
  \<open>row_to_labeled_point ''"758","3rd class","adults","man","no"'' = Inr \<lparr>label = 0, features = [2, 1, 0]\<rparr>
   \<and> label \<lparr>label = 0, features = [2, 1, 0]\<rparr> \<in> {0, 1}
   \<and> features \<lparr>label = 0, features = [2, 1, 0]\<rparr> ! 1 \<in> {0, 1}
   \<and> features \<lparr>label = 0, features = [2, 1, 0]\<rparr> ! 2 \<in> {0, 1}\<close>
proof -
  have row: \<open>row_to_labeled_point ''"758","3rd class","adults","man","no"'' = Inr \<lparr>label = 0, features = [2, 1, 0]\<rparr>\<close>
    by (simp add: row_to_labeled_point_def segments_def py_strip_def quote_def comma_def
        py_int_char_def is_digit_def)
  from row_to_labeled_point_binary_codes [OF row]
  have "label \<lparr>label = 0, features = [2, 1, 0]\<rparr> \<in> {0, 1}
      \<and> features \<lparr>label = 0, features = [2, 1, 0]\<rparr> ! 1 \<in> {0, 1}
      \<and> features \<lparr>label = 0, features = [2, 1, 0]\<rparr> ! 2 \<in> {0, 1}"
    by blast
  with row show ?thesis by blast
qed

section \<open>The header filter\<close>

lemma count_list_filter_neq:
  "line \<noteq> header \<Longrightarrow> count_list (filter (\<lambda>l. l \<noteq> header) xs) line = count_list xs line"
  by (induction xs) simp_all

text \<open>
  C10: on a file with at least one line, \<open>data_rdd\<close> drops every line equal to the first
  one, so also a data row that repeats the header text: no line equal to the header is
  left. Every other line is kept as often as it occurs, and the lines that are left
  stand in the order of the file.
\<close>

theorem data_rdd_drops_every_header_copy:
  "\<exists>rows. data_rdd (header # rest) = Inr rows \<and>
      header \<notin> set rows \<and>
      subseq rows (header # rest) \<and>
      (\<forall>line. line \<noteq> header \<longrightarrow> count_list rows line = count_list rest line)"
proof -
  let ?rows = "filter (\<lambda>line. line \<noteq> header) (header # rest)"
  have "data_rdd (header # rest) = Inr ?rows"
    by (simp add: data_rdd_def rdd_first_def)
  moreover have "header \<notin> set ?rows" by simp
  moreover have "subseq ?rows (header # rest)" by (rule subseq_filter_left)
  moreover have "\<forall>line. line \<noteq> header \<longrightarrow> count_list ?rows line = count_list rest line"
    using count_list_filter_neq [of _ header "header # rest"] by simp
  ultimately show ?thesis by blast
qed

theorem data_rdd_drops_every_header_copy_witness:
  "data_rdd [''h'', ''a'', ''h'', ''b'', ''a''] = Inr [''a'', ''b'', ''a'']
   \<and> ''h'' \<notin> set [''a'', ''b'', ''a'']
   \<and> ''a'' \<noteq> ''h''
   \<and> count_list [''a'', ''b'', ''a''] ''a'' = count_list [''a'', ''h'', ''b'', ''a''] ''a''"
proof -
  have run: "data_rdd [''h'', ''a'', ''h'', ''b'', ''a''] = Inr [''a'', ''b'', ''a'']"
    by (simp add: data_rdd_def rdd_first_def)
  have ne: "''a'' \<noteq> ''h''" by simp
  from data_rdd_drops_every_header_copy [of "''h''" "[''a'', ''h'', ''b'', ''a'']"]
  obtain rows where r: "data_rdd [''h'', ''a'', ''h'', ''b'', ''a''] = Inr rows"
    and h: "''h'' \<notin> set rows"
    and c: "\<forall>line. line \<noteq> ''h'' \<longrightarrow> count_list rows line = count_list [''a'', ''h'', ''b'', ''a''] line"
    by (elim exE conjE)
  from r run have rows: "rows = [''a'', ''b'', ''a'']" by (simp only: sum.inject)
  from c [rule_format, OF ne]
  have cnt: "count_list rows ''a'' = count_list [''a'', ''h'', ''b'', ''a''] ''a''" .
  show ?thesis
    by (intro conjI) (rule run, rule h [unfolded rows], rule ne, rule cnt [unfolded rows])
qed

section \<open>The two subsets of the split\<close>

lemma randomSplit_nths:
  "randomSplit rng weights seed rdd =
     (nths rdd {i. rng seed i < fst weights / (fst weights + snd weights)},
      nths rdd {i. \<not> rng seed i < fst weights / (fst weights + snd weights)})"
  by (simp add: randomSplit_def nths_def Let_def)

lemma length_filter_compl:
  "length (filter P xs) + length (filter (\<lambda>x. \<not> P x) xs) = length xs"
  by (induction xs) simp_all

lemma randomSplit_lengths:
  "length (fst (randomSplit rng weights seed rdd)) + length (snd (randomSplit rng weights seed rdd))
     = length rdd"
proof -
  have "length (filter (\<lambda>p. rng seed (snd p) < fst weights / (fst weights + snd weights))
                  (zip rdd [0..<length rdd])) +
        length (filter (\<lambda>p. \<not> rng seed (snd p) < fst weights / (fst weights + snd weights))
                  (zip rdd [0..<length rdd])) = length (zip rdd [0..<length rdd])"
    by (rule length_filter_compl)
  then show ?thesis by (simp add: randomSplit_def Let_def)
qed

lemma nths_restrict: "nths xs A = nths xs {i. i < length xs \<and> i \<in> A}"
proof -
  have "filter (\<lambda>p. snd p \<in> A) (zip xs [0..<length xs])
      = filter (\<lambda>p. snd p \<in> {i. i < length xs \<and> i \<in> A}) (zip xs [0..<length xs])"
  proof (rule filter_cong [OF refl])
    fix p assume "p \<in> set (zip xs [0..<length xs])"
    then have "(fst p, snd p) \<in> set (zip xs [0..<length xs])" by simp
    then have "snd p \<in> set [0..<length xs]" by (rule set_zip_rightD)
    then show "(snd p \<in> A) = (snd p \<in> {i. i < length xs \<and> i \<in> A})" by simp
  qed
  then show ?thesis by (simp only: nths_def)
qed


text \<open>
  C7: for every generator, every pair of weights, every seed and every input, the
  training subset and the test subset are the records at two sets of positions of the
  input that are disjoint and cover all positions, so every record of the input is in
  exactly one subset, and the two sizes add up to the number of records.
\<close>

theorem randomSplit_partitions:
  "\<exists>training_rdd test_rdd I J.
      randomSplit rng weights seed rdd = (training_rdd, test_rdd) \<and>
      training_rdd = nths rdd I \<and> test_rdd = nths rdd J \<and>
      I \<inter> J = {} \<and> I \<union> J = {i. i < length rdd} \<and>
      length training_rdd + length test_rdd = length rdd"
proof -
  let ?A = "{i. rng seed i < fst weights / (fst weights + snd weights)}"
  let ?B = "{i. \<not> rng seed i < fst weights / (fst weights + snd weights)}"
  let ?I = "{i. i < length rdd \<and> i \<in> ?A}"
  let ?J = "{i. i < length rdd \<and> i \<in> ?B}"
  have split: "randomSplit rng weights seed rdd = (nths rdd ?I, nths rdd ?J)"
    using nths_restrict [of rdd ?A] nths_restrict [of rdd ?B]
    by (simp only: randomSplit_nths)
  have disj: "?I \<inter> ?J = {}" by blast
  have cover: "?I \<union> ?J = {i. i < length rdd}" by blast
  from randomSplit_lengths [of rng weights seed rdd]
  have len: "length (nths rdd ?I) + length (nths rdd ?J) = length rdd"
    by (simp only: split fst_conv snd_conv)
  show ?thesis
    by (intro exI conjI) (rule split, rule refl, rule refl, rule disj, rule cover, rule len)
qed

section \<open>Rounding to a double\<close>











section \<open>Accuracy as a rounded fraction\<close>

lemma py_float_small: "n < 2 ^ 53 \<Longrightarrow> py_float n = Inr n"
  by (simp add: py_float_def)

lemma zip_by_position:
  assumes "length xs = length ys"
  shows "zip xs ys = map (\<lambda>i. (xs ! i, ys ! i)) [0..<length xs]"
proof (rule nth_equalityI)
  show "length (zip xs ys) = length (map (\<lambda>i. (xs ! i, ys ! i)) [0..<length xs])"
    using assms by simp
next
  fix i assume "i < length (zip xs ys)"
  then show "zip xs ys ! i = map (\<lambda>i. (xs ! i, ys ! i)) [0..<length xs] ! i"
    using assms by simp
qed

lemma matching_pairs_by_position:
  assumes "length predictions = length test_rdd"
  shows "length (filter (\<lambda>v_p. fst v_p = snd v_p) (zip (map label test_rdd) predictions))
       = length (filter (\<lambda>i. label (test_rdd ! i) = predictions ! i) [0..<length test_rdd])"
proof -
  have len: "length (map label test_rdd) = length predictions"
    using assms by simp
  have "filter (\<lambda>i. map label test_rdd ! i = predictions ! i) [0..<length test_rdd]
      = filter (\<lambda>i. label (test_rdd ! i) = predictions ! i) [0..<length test_rdd]"
    by (rule filter_cong [OF refl]) simp
  then show ?thesis
    by (simp add: zip_by_position [OF len] filter_map comp_def)
qed

lemma accuracy_value:
  assumes "test_rdd \<noteq> []" and "length predictions = length test_rdd"
    and "length test_rdd < 2 ^ 53"
  shows "accuracy test_rdd predictions =
     Inr (float_div (length (filter (\<lambda>i. label (test_rdd ! i) = predictions ! i)
                               [0..<length test_rdd]))
                    (length test_rdd))"
proof -
  let ?hits = "filter (\<lambda>i. label (test_rdd ! i) = predictions ! i) [0..<length test_rdd]"
  have "length ?hits \<le> length test_rdd"
    using length_filter_le [of "\<lambda>i. label (test_rdd ! i) = predictions ! i" "[0..<length test_rdd]"]
    by simp
  with assms(3) have "length ?hits < 2 ^ 53" by simp
  then have hits: "py_float (length ?hits) = Inr (length ?hits)" by (rule py_float_small)
  have total: "py_float (length test_rdd) = Inr (length test_rdd)"
    using assms(3) by (rule py_float_small)
  show ?thesis
    using assms(1,2)
    by (simp add: accuracy_def truth_and_predictions_rdd_def rdd_zip_def Let_def
        matching_pairs_by_position [OF assms(2)] hits total)
qed

text \<open>
  The predictions of a model have one entry for each test record, so the accuracy of a
  model on a test set that is not empty is always defined.
\<close>

lemma accuracy_of_model:
  assumes "test_rdd \<noteq> []" and "length test_rdd < 2 ^ 53"
  shows "accuracy test_rdd (predictions_rdd predict test_rdd) =
     Inr (float_div (length (filter (\<lambda>i. label (test_rdd ! i) = predict (features (test_rdd ! i)))
                          [0..<length test_rdd])) (length test_rdd))"
proof -
  have len: "length (predictions_rdd predict test_rdd) = length test_rdd"
    by (simp add: predictions_rdd_def)
  have "filter (\<lambda>i. label (test_rdd ! i) = predictions_rdd predict test_rdd ! i) [0..<length test_rdd]
      = filter (\<lambda>i. label (test_rdd ! i) = predict (features (test_rdd ! i))) [0..<length test_rdd]"
    by (rule filter_cong [OF refl]) (simp add: predictions_rdd_def)
  with accuracy_value [OF assms(1) len assms(2)] show ?thesis by simp
qed

text \<open>
  The model of the division gives the two accuracies that the notebook prints: with 402
  test records, 321 matches give the double that Python prints as
  \<^verbatim>\<open>0.7985074626865671\<close> and 316 matches the one it prints as \<^verbatim>\<open>0.7860696517412935\<close>.
\<close>

lemma float_div_notebook:
  "float_div 321 402 = 449519738925973 / 562949953421312"
  "float_div 316 402 = 3540142990669345 / 4503599627370496"
  by (simp_all add: float_div_def bit_length.simps rne_div_def Let_def)




end
